theory Spec2Isabelle
  imports Main "HOL-Library.Word" "HOL-Library.AList"
begin

section \<open>Data model of package nbt\<close>

text \<open>
  Bytes are 8-bit words. A Go \<^verbatim>\<open>string\<close> is an arbitrary byte sequence (the decoder
  converts the raw name bytes with \<^verbatim>\<open>string(str)\<close> and never validates UTF-8), so
  names and text values are byte lists; map keys compare bytewise, as in Go.
  A \<^verbatim>\<open>float32\<close>/\<^verbatim>\<open>float64\<close> is represented by its IEEE bit pattern: the decoder only
  moves the bits, it never computes with them.
\<close>

type_synonym byte = "8 word"
type_synonym gostring = "byte list"
type_synonym addr = nat

text \<open>The tag constants of \<^verbatim>\<open>nbt.go\<close> (\<^verbatim>\<open>TagEnd byte = iota\<close> ...).\<close>

definition TagEnd :: byte where "TagEnd = 0"
definition TagByte :: byte where "TagByte = 1"
definition TagShort :: byte where "TagShort = 2"
definition TagInt :: byte where "TagInt = 3"
definition TagLong :: byte where "TagLong = 4"
definition TagFloat :: byte where "TagFloat = 5"
definition TagDouble :: byte where "TagDouble = 6"
definition TagByteArray :: byte where "TagByteArray = 7"
definition TagString :: byte where "TagString = 8"
definition TagList :: byte where "TagList = 9"
definition TagCompound :: byte where "TagCompound = 10"
definition TagIntArray :: byte where "TagIntArray = 11"

text \<open>
  The package's error values, and the error built by \<^verbatim>\<open>read_compound\<close>'s default
  branch (\<^verbatim>\<open>"Unknown type: %v"\<close>), which carries the offending tag.
\<close>

datatype error =
    ErrInvalidTag
  | ErrNotCompound
  | ErrStoppedShort
  | ErrTruncated
  | UnknownType byte

text \<open>
  Run-time panics the decoder and the accessors can raise: \<^verbatim>\<open>make\<close> with a negative
  length, the explicit \<^verbatim>\<open>panic\<close> of \<^verbatim>\<open>read_list\<close>'s default branch (it carries the
  list type), and a failed single-value type assertion.
\<close>

datatype panic =
    MakeSliceLenOutOfRange
  | ListTypePanic byte
  | InterfaceConversion

datatype 'a outcome = Panicked panic | Returned 'a

text \<open>
  The dynamic value held by \<^verbatim>\<open>List.data\<close> (an \<^verbatim>\<open>interface{}\<close>): nil until set, or
  one of the slice types the accessors assert. A \<^verbatim>\<open>[]*Compound\<close> holds addresses of
  compounds in the store.
\<close>

datatype listdata =
    NilData
  | Compounds "addr list"
  | Int8s "8 word list"
  | Int16s "16 word list"
  | Int32s "32 word list"
  | Int64s "64 word list"
  | Float32s "32 word list"
  | Float64s "64 word list"
  | Strings "gostring list"

record List =
  l_name :: gostring
  l_list_type :: byte
  l_data :: listdata
  l_length :: "32 word"

text \<open>
  The dynamic values a \<^verbatim>\<open>Compound.data\<close> slot (\<^verbatim>\<open>map[string]interface{}\<close>) can hold.
  \<^verbatim>\<open>store\<close> puts the \<^emph>\<open>pointer\<close> it was given into the map (\<^verbatim>\<open>*int8\<close>, ...), written
  \<open>PInt8\<close> ... here with the pointee's value; the accessors assert the plain types
  (\<^verbatim>\<open>int8\<close>, ...), written \<open>VInt8\<close> ... . A \<^verbatim>\<open>*List\<close> is never mutated after
  \<^verbatim>\<open>read_list\<close> returns it, so it is held by value; a \<^verbatim>\<open>*Compound\<close> is mutated through
  aliases while it is decoded, so it is an address into the store.
\<close>

datatype dyn =
    VInt8 "8 word"
  | VInt16 "16 word"
  | VInt32 "32 word"
  | VInt64 "64 word"
  | VFloat32 "32 word"
  | VFloat64 "64 word"
  | PInt8 "8 word"
  | PInt16 "16 word"
  | PInt32 "32 word"
  | PInt64 "64 word"
  | PFloat32 "32 word"
  | PFloat64 "64 word"
  | Int8Slice "8 word list"
  | Int32Slice "32 word list"
  | Str gostring
  | PList List
  | PCompound addr

text \<open>
  \<^verbatim>\<open>type Compound struct { name; data; parent }\<close>. The map is an association list
  with one entry per key, updated with \<^const>\<open>AList.update\<close> (assignment to an existing
  key replaces its value), so its length is Go's \<^verbatim>\<open>len\<close> of the map.
\<close>

record Compound =
  c_name :: gostring
  c_data :: "(gostring \<times> dyn) list"
  c_parent :: "addr option"

text \<open>
  The decoder's state: the store of compounds (every \<^verbatim>\<open>&Compound{...}\<close> takes the next
  free address), and the bytes not yet read from \<^verbatim>\<open>src\<close>.
\<close>

record state =
  heap :: "addr \<Rightarrow> Compound"
  nxt :: addr
  src :: "byte list"

section \<open>Primitive reader\<close>

text \<open>
  \<^verbatim>\<open>io.ReadFull\<close> on \<open>n\<close> bytes: the bytes and the rest of the stream, or, when fewer
  are left, a failure that has drained the stream. Reading zero bytes always succeeds.
\<close>

definition read_full :: "nat \<Rightarrow> byte list \<Rightarrow> byte list option \<times> byte list" where
  "read_full n s = (if n \<le> length s then (Some (take n s), drop n s) else (None, []))"

text \<open>
  \<^verbatim>\<open>read(&v, src)\<close> for a fixed-width \<open>v\<close>: \<^verbatim>\<open>binary.Read\<close> decodes big-endian into
  \<open>v\<close>; when the read fails it leaves \<open>v\<close> as it was. Every caller drops the error.
\<close>

definition read :: "'a::len word \<Rightarrow> byte list \<Rightarrow> 'a word \<times> byte list" where
  "read old s =
     (case read_full (LENGTH('a) div 8) s of
        (Some bs, r) \<Rightarrow> (word_rcat bs, r)
      | (None, r) \<Rightarrow> (old, r))"

text \<open>The first \<open>n\<close> consecutive groups of \<open>w\<close> bytes of a buffer.\<close>

fun chunks :: "nat \<Rightarrow> nat \<Rightarrow> byte list \<Rightarrow> byte list list" where
  "chunks w 0 bs = []"
| "chunks w (Suc n) bs = take w bs # chunks w n (drop w bs)"

text \<open>
  \<^verbatim>\<open>read(slice, src)\<close> for a slice of \<open>n\<close> fixed-width elements, all zero before the
  call: the elements in stream order, or the untouched zeros when the read fails.
\<close>

definition read_slice :: "nat \<Rightarrow> byte list \<Rightarrow> 'a::len word list \<times> byte list" where
  "read_slice n s =
     (case read_full (n * (LENGTH('a) div 8)) s of
        (Some bs, r) \<Rightarrow> (map word_rcat (chunks (LENGTH('a) div 8) n bs), r)
      | (None, r) \<Rightarrow> (replicate n 0, r))"

text \<open>
  \<^verbatim>\<open>make([]T, length)\<close> for a signed length: a negative one panics, otherwise the
  number of elements.
\<close>

definition make_len :: "'a::len word \<Rightarrow> nat outcome" where
  "make_len l = (if sint l < 0 then Panicked MakeSliceLenOutOfRange else Returned (nat (sint l)))"

text \<open>
  \<^verbatim>\<open>read_string\<close>: the length is read into an \<^verbatim>\<open>int16\<close> (zero when the read fails),
  \<^verbatim>\<open>make([]byte, strlen)\<close> allocates, the bytes are read into it (left zero when the
  read fails).
\<close>

definition read_string :: "byte list \<Rightarrow> (gostring \<times> byte list) outcome" where
  "read_string s =
     (let (strlen :: 16 word, s1) = read 0 s in
      case make_len strlen of
        Panicked p \<Rightarrow> Panicked p
      | Returned n \<Rightarrow> Returned (read_slice n s1))"

section \<open>The store\<close>

text \<open>\<^verbatim>\<open>&Compound{parent: parent, name: name, data: make(map...)}\<close>: a fresh object.\<close>

definition new_compound :: "gostring \<Rightarrow> addr option \<Rightarrow> state \<Rightarrow> addr \<times> state" where
  "new_compound name parent st =
     (nxt st,
      st\<lparr>heap := (heap st)(nxt st := \<lparr>c_name = name, c_data = [], c_parent = parent\<rparr>),
         nxt := Suc (nxt st)\<rparr>)"

text \<open>\<^verbatim>\<open>c.data[name] = v\<close> through the pointer \<open>c\<close>.\<close>

definition set_data :: "addr \<Rightarrow> gostring \<Rightarrow> dyn \<Rightarrow> state \<Rightarrow> state" where
  "set_data c name v st =
     st\<lparr>heap := (heap st)(c := (heap st c)\<lparr>c_data := AList.update name v (c_data (heap st c))\<rparr>)\<rparr>"

text \<open>
  \<^verbatim>\<open>(c *Compound) store(data, src)\<close>: \<open>data\<close> points at a zero value of the member's
  type; \<open>ptr\<close> is the constructor of that pointer type.
\<close>

definition store :: "addr \<Rightarrow> ('a::len word \<Rightarrow> dyn) \<Rightarrow> state \<Rightarrow> state outcome" where
  "store c ptr st =
     (case read_string (src st) of
        Panicked p \<Rightarrow> Panicked p
      | Returned (name, s1) \<Rightarrow>
          (let (v :: 'a word, s2) = read 0 s1
           in Returned (set_data c name (ptr v) (st\<lparr>src := s2\<rparr>))))"

text \<open>
  The array members (\<^verbatim>\<open>TagByteArray\<close>, \<^verbatim>\<open>TagIntArray\<close>): name, signed 32-bit length,
  \<^verbatim>\<open>make\<close>, the elements, then the assignment into the map.
\<close>

definition store_array :: "addr \<Rightarrow> ('a::len word list \<Rightarrow> dyn) \<Rightarrow> state \<Rightarrow> state outcome" where
  "store_array c mk st =
     (case read_string (src st) of
        Panicked p \<Rightarrow> Panicked p
      | Returned (name, s1) \<Rightarrow>
          (let (len :: 32 word, s2) = read 0 s1 in
           case make_len len of
             Panicked p \<Rightarrow> Panicked p
           | Returned n \<Rightarrow>
               (let (arr :: 'a word list, s3) = read_slice n s2
                in Returned (set_data c name (mk arr) (st\<lparr>src := s3\<rparr>)))))"

text \<open>The \<^verbatim>\<open>TagString\<close> member: two \<^verbatim>\<open>read_string\<close> calls, then the assignment.\<close>

definition store_string :: "addr \<Rightarrow> state \<Rightarrow> state outcome" where
  "store_string c st =
     (case read_string (src st) of
        Panicked p \<Rightarrow> Panicked p
      | Returned (name, s1) \<Rightarrow>
          (case read_string s1 of
             Panicked p \<Rightarrow> Panicked p
           | Returned (data, s2) \<Rightarrow> Returned (set_data c name (Str data) (st\<lparr>src := s2\<rparr>))))"

text \<open>
  The \<^verbatim>\<open>TagCompound\<close> member: a new compound whose parent is the current one is put
  into the current one's map and becomes the current one.
\<close>

definition open_compound :: "addr \<Rightarrow> state \<Rightarrow> (addr \<times> state) outcome" where
  "open_compound current st =
     (case read_string (src st) of
        Panicked p \<Rightarrow> Panicked p
      | Returned (name, s1) \<Rightarrow>
          (let (c, st1) = new_compound name (Some current) (st\<lparr>src := s1\<rparr>)
           in Returned (c, set_data current name (PCompound c) st1)))"

section \<open>The decoder\<close>

text \<open>
  What one pass through the body of \<^verbatim>\<open>read_compound\<close>'s \<^verbatim>\<open>for\<close> loop does next: go
  round again with a (possibly new) current compound, or return \<^verbatim>\<open>(root, err)\<close>.
\<close>

datatype ctl = Continue addr state | Return addr "error option" state

text \<open>
  \<^verbatim>\<open>read_list\<close> returns \<^verbatim>\<open>(nil, err)\<close> or \<^verbatim>\<open>(list, nil)\<close>: a sum. \<^verbatim>\<open>read_compound\<close>
  returns \<^verbatim>\<open>(root, err)\<close> with \<open>root\<close> never nil: a pair.
\<close>

type_synonym list_result = "((error + List) \<times> state) outcome option"
type_synonym compound_result = "((addr \<times> error option) \<times> state) outcome option"

definition continue :: "addr \<Rightarrow> state outcome \<Rightarrow> ctl outcome option" where
  "continue current r =
     (case r of Panicked p \<Rightarrow> Some (Panicked p) | Returned st \<Rightarrow> Some (Returned (Continue current st)))"

text \<open>
  The \<^verbatim>\<open>switch tag\<close> of \<^verbatim>\<open>read_compound\<close>, cases in source order. \<open>rl\<close> is the call
  \<^verbatim>\<open>read_list(src)\<close>; it is the only case that can fail to return.
\<close>

definition switch_tag ::
  "(state \<Rightarrow> list_result) \<Rightarrow> addr \<Rightarrow> addr \<Rightarrow> byte \<Rightarrow> state \<Rightarrow> ctl outcome option" where
  "switch_tag rl root current tag st =
     (if tag = TagEnd then
        (case c_parent (heap st current) of
           None \<Rightarrow> Some (Returned (Return root None st))
         | Some p \<Rightarrow> Some (Returned (Continue p st)))
      else if tag = TagByte then continue current (store current PInt8 st)
      else if tag = TagShort then continue current (store current PInt16 st)
      else if tag = TagInt then continue current (store current PInt32 st)
      else if tag = TagLong then continue current (store current PInt64 st)
      else if tag = TagFloat then continue current (store current PFloat32 st)
      else if tag = TagDouble then continue current (store current PFloat64 st)
      else if tag = TagByteArray then continue current (store_array current Int8Slice st)
      else if tag = TagString then continue current (store_string current st)
      else if tag = TagList then
        (case rl st of
           None \<Rightarrow> None
         | Some (Panicked p) \<Rightarrow> Some (Panicked p)
         | Some (Returned (Inl err, st1)) \<Rightarrow> Some (Returned (Return root (Some err) st1))
         | Some (Returned (Inr list, st1)) \<Rightarrow>
             Some (Returned (Continue current (set_data current (l_name list) (PList list) st1))))
      else if tag = TagCompound then
        (case open_compound current st of
           Panicked p \<Rightarrow> Some (Panicked p)
         | Returned (c, st1) \<Rightarrow> Some (Returned (Continue c st1)))
      else if tag = TagIntArray then continue current (store_array current Int32Slice st)
      else Some (Returned (Return root (Some (UnknownType tag)) st)))"

text \<open>
  The scalar cases of \<^verbatim>\<open>read_list\<close>'s switch: \<^verbatim>\<open>data := make([]T, length)\<close>,
  \<^verbatim>\<open>read(data, src)\<close>, \<^verbatim>\<open>list.data = data\<close>, and the final \<^verbatim>\<open>return list, nil\<close>.
\<close>

definition list_of_slice :: "List \<Rightarrow> ('a::len word list \<Rightarrow> listdata) \<Rightarrow> state \<Rightarrow> list_result" where
  "list_of_slice list mk st =
     (case make_len (l_length list) of
        Panicked p \<Rightarrow> Some (Panicked p)
      | Returned k \<Rightarrow>
          (let (data :: 'a word list, s4) = read_slice k (src st)
           in Some (Returned (Inr (list\<lparr>l_data := mk data\<rparr>), st\<lparr>src := s4\<rparr>))))"

type_synonym elements_result = "((error + addr list) \<times> state) outcome option"

text \<open>
  The \<^verbatim>\<open>switch list_type\<close> of \<^verbatim>\<open>read_list\<close>, cases in source order, with the
  \<^verbatim>\<open>return list, nil\<close> that follows it. \<open>rc k\<close> is the \<^verbatim>\<open>for k, _ := range data\<close> loop
  over the \<open>k\<close> elements of the slice made in the \<^verbatim>\<open>TagCompound\<close> case; it yields the
  filled slice or the error of the \<^verbatim>\<open>return nil, err\<close> inside the loop.
\<close>

definition list_switch :: "(nat \<Rightarrow> state \<Rightarrow> elements_result) \<Rightarrow> List \<Rightarrow> state \<Rightarrow> list_result" where
  "list_switch rc list st =
     (if l_list_type list = TagCompound then
        (case make_len (l_length list) of
           Panicked p \<Rightarrow> Some (Panicked p)
         | Returned k \<Rightarrow>
             (case rc k st of
                None \<Rightarrow> None
              | Some (Panicked p) \<Rightarrow> Some (Panicked p)
              | Some (Returned (Inl err, st1)) \<Rightarrow> Some (Returned (Inl err, st1))
              | Some (Returned (Inr data, st1)) \<Rightarrow>
                  Some (Returned (Inr (list\<lparr>l_data := Compounds data\<rparr>), st1))))
      else if l_list_type list = TagByte then list_of_slice list Int8s st
      else if l_list_type list = TagShort then list_of_slice list Int16s st
      else if l_list_type list = TagInt then list_of_slice list Int32s st
      else if l_list_type list = TagLong then list_of_slice list Int64s st
      else if l_list_type list = TagFloat then list_of_slice list Float32s st
      else if l_list_type list = TagDouble then list_of_slice list Float64s st
      else Some (Panicked (ListTypePanic (l_list_type list))))"

text \<open>
  The body of \<^verbatim>\<open>read_list\<close>: name, list type and length are read (each variable is
  zero when its read fails), the \<^verbatim>\<open>List\<close> is built with no data, then the switch.
\<close>

definition read_list_body :: "(nat \<Rightarrow> state \<Rightarrow> elements_result) \<Rightarrow> state \<Rightarrow> list_result" where
  "read_list_body rc st0 =
     (case read_string (src st0) of
        Panicked p \<Rightarrow> Some (Panicked p)
      | Returned (name, s1) \<Rightarrow>
          (let (list_type :: byte, s2) = read 0 s1;
               (len :: 32 word, s3) = read 0 s2;
               list = \<lparr>l_name = name, l_list_type = list_type, l_data = NilData, l_length = len\<rparr>
           in list_switch rc list (st0\<lparr>src := s3\<rparr>)))"

text \<open>
  One iteration of the loop: \<^verbatim>\<open>read(&tag, src)\<close>, then the switch. \<open>tag\<close> is declared
  outside the loop, so a failed read leaves the tag of the previous iteration in it.
\<close>

definition iteration ::
  "(state \<Rightarrow> list_result) \<Rightarrow> addr \<Rightarrow> addr \<Rightarrow> byte \<Rightarrow> state \<Rightarrow> (byte \<times> ctl outcome option)" where
  "iteration rl root current tag0 st =
     (let (tag, s1) = read tag0 (src st)
      in (tag, switch_tag rl root current tag (st\<lparr>src := s1\<rparr>)))"

text \<open>
  \<^verbatim>\<open>read_compound\<close> and \<^verbatim>\<open>read_list\<close> call each other, and the \<^verbatim>\<open>for\<close> loop of
  \<^verbatim>\<open>read_compound\<close> has no exit but its \<^verbatim>\<open>return\<close>s, so it may run forever. The first
  argument bounds the number of loop iterations on any chain of nested calls; \<open>None\<close>
  means the bound was reached before the function returned.

  \<^item> \<open>read_compound_loop\<close> is the \<^verbatim>\<open>for\<close> loop, with the locals \<open>root\<close>, \<open>current\<close> and
    \<open>tag\<close>;
  \<^item> \<open>read_compound\<close> is the function: it allocates the compound and enters the loop;
  \<^item> \<open>read_list_compounds\<close> is the \<^verbatim>\<open>for k, _ := range data\<close> loop of \<^verbatim>\<open>read_list\<close>
    with \<open>k\<close> elements still to read and \<open>acc\<close> the elements read;
  \<^item> \<open>read_list\<close> is the function.

  The debugging \<^verbatim>\<open>println\<close> of the loop writes to standard error only and is left out.
\<close>

fun read_compound_loop :: "nat \<Rightarrow> addr \<Rightarrow> addr \<Rightarrow> byte \<Rightarrow> state \<Rightarrow> compound_result"
  and read_compound :: "nat \<Rightarrow> gostring \<Rightarrow> addr option \<Rightarrow> state \<Rightarrow> compound_result"
  and read_list_compounds :: "nat \<Rightarrow> nat \<Rightarrow> addr list \<Rightarrow> state \<Rightarrow> elements_result"
  and read_list :: "nat \<Rightarrow> state \<Rightarrow> list_result"
where
  "read_compound_loop 0 root current tag st = None"
| "read_compound_loop (Suc n) root current tag0 st =
     (case iteration (\<lambda>s. read_list n s) root current tag0 st of
        (tag, None) \<Rightarrow> None
      | (tag, Some (Panicked p)) \<Rightarrow> Some (Panicked p)
      | (tag, Some (Returned (Return r err st1))) \<Rightarrow> Some (Returned ((r, err), st1))
      | (tag, Some (Returned (Continue current1 st1))) \<Rightarrow> read_compound_loop n root current1 tag st1)"
| "read_compound n name parent st =
     (let (current, st1) = new_compound name parent st
      in read_compound_loop n current current 0 st1)"
| "read_list_compounds n 0 acc st = Some (Returned (Inr acc, st))"
| "read_list_compounds n (Suc k) acc st =
     (case read_compound n [] None st of
        None \<Rightarrow> None
      | Some (Panicked p) \<Rightarrow> Some (Panicked p)
      | Some (Returned ((c, Some err), st1)) \<Rightarrow> Some (Returned (Inl err, st1))
      | Some (Returned ((c, None), st1)) \<Rightarrow> read_list_compounds n k (acc @ [c]) st1)"
| "read_list n st0 = read_list_body (\<lambda>k s. read_list_compounds n k [] s) st0"

text \<open>
  \<^verbatim>\<open>Decode\<close>, started on an empty store. The result is \<^verbatim>\<open>(*Compound, error)\<close>: the
  pointer is nil in the root-type error only.
\<close>

definition init_state :: "byte list \<Rightarrow> state" where
  "init_state s = \<lparr>heap = (\<lambda>_. \<lparr>c_name = [], c_data = [], c_parent = None\<rparr>), nxt = 0, src = s\<rparr>"

definition Decode :: "nat \<Rightarrow> byte list \<Rightarrow> ((addr option \<times> error option) \<times> state) outcome option" where
  "Decode n s =
     (let (tag :: byte, s1) = read 0 s in
      if tag \<noteq> TagCompound then Some (Returned ((None, Some ErrNotCompound), init_state s1))
      else
        (case read_string s1 of
           Panicked p \<Rightarrow> Some (Panicked p)
         | Returned (name, s2) \<Rightarrow>
             (case read_compound n name None (init_state s2) of
                None \<Rightarrow> None
              | Some (Panicked p) \<Rightarrow> Some (Panicked p)
              | Some (Returned ((root, err), st)) \<Rightarrow> Some (Returned ((Some root, err), st)))))"

section \<open>Accessors\<close>

text \<open>
  The methods of \<^verbatim>\<open>*Compound\<close>. \<^verbatim>\<open>self.data[name].(T)\<close> is a single-value type
  assertion: it panics unless the slot holds a value whose dynamic type is exactly \<open>T\<close>;
  a missing key yields the nil interface, which has no dynamic type.
\<close>

definition Compound_Byte :: "Compound \<Rightarrow> gostring \<Rightarrow> 8 word outcome" where
  "Compound_Byte self name =
     (case map_of (c_data self) name of Some (VInt8 v) \<Rightarrow> Returned v | _ \<Rightarrow> Panicked InterfaceConversion)"

definition Compound_Short :: "Compound \<Rightarrow> gostring \<Rightarrow> 16 word outcome" where
  "Compound_Short self name =
     (case map_of (c_data self) name of Some (VInt16 v) \<Rightarrow> Returned v | _ \<Rightarrow> Panicked InterfaceConversion)"

definition Compound_Int :: "Compound \<Rightarrow> gostring \<Rightarrow> 32 word outcome" where
  "Compound_Int self name =
     (case map_of (c_data self) name of Some (VInt32 v) \<Rightarrow> Returned v | _ \<Rightarrow> Panicked InterfaceConversion)"

definition Compound_Long :: "Compound \<Rightarrow> gostring \<Rightarrow> 64 word outcome" where
  "Compound_Long self name =
     (case map_of (c_data self) name of Some (VInt64 v) \<Rightarrow> Returned v | _ \<Rightarrow> Panicked InterfaceConversion)"

definition Compound_Float :: "Compound \<Rightarrow> gostring \<Rightarrow> 32 word outcome" where
  "Compound_Float self name =
     (case map_of (c_data self) name of Some (VFloat32 v) \<Rightarrow> Returned v | _ \<Rightarrow> Panicked InterfaceConversion)"

definition Compound_Double :: "Compound \<Rightarrow> gostring \<Rightarrow> 64 word outcome" where
  "Compound_Double self name =
     (case map_of (c_data self) name of Some (VFloat64 v) \<Rightarrow> Returned v | _ \<Rightarrow> Panicked InterfaceConversion)"

definition Compound_Compound :: "Compound \<Rightarrow> gostring \<Rightarrow> addr outcome" where
  "Compound_Compound self name =
     (case map_of (c_data self) name of Some (PCompound c) \<Rightarrow> Returned c | _ \<Rightarrow> Panicked InterfaceConversion)"

definition Compound_List :: "Compound \<Rightarrow> gostring \<Rightarrow> List outcome" where
  "Compound_List self name =
     (case map_of (c_data self) name of Some (PList l) \<Rightarrow> Returned l | _ \<Rightarrow> Panicked InterfaceConversion)"

definition Compound_String :: "Compound \<Rightarrow> gostring \<Rightarrow> gostring outcome" where
  "Compound_String self name =
     (case map_of (c_data self) name of Some (Str v) \<Rightarrow> Returned v | _ \<Rightarrow> Panicked InterfaceConversion)"

definition Compound_Name :: "Compound \<Rightarrow> gostring" where
  "Compound_Name self = c_name self"

definition Compound_Len :: "Compound \<Rightarrow> nat" where
  "Compound_Len self = length (c_data self)"

text \<open>The methods of \<^verbatim>\<open>*List\<close>.\<close>

definition List_ListType :: "List \<Rightarrow> byte" where
  "List_ListType self = l_list_type self"

definition List_Len :: "List \<Rightarrow> int" where
  "List_Len self = sint (l_length self)"

definition List_Bytes :: "List \<Rightarrow> 8 word list outcome" where
  "List_Bytes self = (case l_data self of Int8s v \<Rightarrow> Returned v | _ \<Rightarrow> Panicked InterfaceConversion)"

definition List_Shorts :: "List \<Rightarrow> 16 word list outcome" where
  "List_Shorts self = (case l_data self of Int16s v \<Rightarrow> Returned v | _ \<Rightarrow> Panicked InterfaceConversion)"

definition List_Ints :: "List \<Rightarrow> 32 word list outcome" where
  "List_Ints self = (case l_data self of Int32s v \<Rightarrow> Returned v | _ \<Rightarrow> Panicked InterfaceConversion)"

definition List_Longs :: "List \<Rightarrow> 64 word list outcome" where
  "List_Longs self = (case l_data self of Int64s v \<Rightarrow> Returned v | _ \<Rightarrow> Panicked InterfaceConversion)"

definition List_Floats :: "List \<Rightarrow> 32 word list outcome" where
  "List_Floats self = (case l_data self of Float32s v \<Rightarrow> Returned v | _ \<Rightarrow> Panicked InterfaceConversion)"

definition List_Doubles :: "List \<Rightarrow> 64 word list outcome" where
  "List_Doubles self = (case l_data self of Float64s v \<Rightarrow> Returned v | _ \<Rightarrow> Panicked InterfaceConversion)"

definition List_Strings :: "List \<Rightarrow> gostring list outcome" where
  "List_Strings self = (case l_data self of Strings v \<Rightarrow> Returned v | _ \<Rightarrow> Panicked InterfaceConversion)"

definition List_Compounds :: "List \<Rightarrow> addr list outcome" where
  "List_Compounds self = (case l_data self of Compounds v \<Rightarrow> Returned v | _ \<Rightarrow> Panicked InterfaceConversion)"

section \<open>Observing a result\<close>

text \<open>
  The compounds of the store in allocation order, and a result with its state replaced
  by them and the unread input, so that results can be compared by evaluation.
\<close>

definition compounds :: "state \<Rightarrow> Compound list" where
  "compounds st = map (heap st) [0..<nxt st]"

definition view :: "('a \<times> state) outcome option \<Rightarrow> ('a \<times> Compound list \<times> byte list) outcome option" where
  "view r = map_option (map_outcome (\<lambda>(x, st). (x, compounds st, src st))) r"

section \<open>What the decoder stores\<close>

text \<open>
  The slice \<^verbatim>\<open>read_list\<close> puts into \<^verbatim>\<open>list.data\<close> has the element type of the case of
  its switch that built it; it never builds a \<^verbatim>\<open>[]string\<close> and never returns a list
  without data.
\<close>

definition list_wf :: "List \<Rightarrow> bool" where
  "list_wf l =
     (case l_data l of
        Compounds _ \<Rightarrow> l_list_type l = TagCompound
      | Int8s _ \<Rightarrow> l_list_type l = TagByte
      | Int16s _ \<Rightarrow> l_list_type l = TagShort
      | Int32s _ \<Rightarrow> l_list_type l = TagInt
      | Int64s _ \<Rightarrow> l_list_type l = TagLong
      | Float32s _ \<Rightarrow> l_list_type l = TagFloat
      | Float64s _ \<Rightarrow> l_list_type l = TagDouble
      | Strings _ \<Rightarrow> False
      | NilData \<Rightarrow> False)"

text \<open>
  The tag of the member that \<^verbatim>\<open>read_compound\<close> stores as a given dynamic value: the
  case of its switch that assigns a value of that type to the map. No case stores a
  plain \<^verbatim>\<open>int8\<close> ... \<^verbatim>\<open>float64\<close>.
\<close>

fun tag_of :: "dyn \<Rightarrow> byte option" where
  "tag_of (PInt8 _) = Some TagByte"
| "tag_of (PInt16 _) = Some TagShort"
| "tag_of (PInt32 _) = Some TagInt"
| "tag_of (PInt64 _) = Some TagLong"
| "tag_of (PFloat32 _) = Some TagFloat"
| "tag_of (PFloat64 _) = Some TagDouble"
| "tag_of (Int8Slice _) = Some TagByteArray"
| "tag_of (Str _) = Some TagString"
| "tag_of (PList _) = Some TagList"
| "tag_of (PCompound _) = Some TagCompound"
| "tag_of (Int32Slice _) = Some TagIntArray"
| "tag_of _ = None"

text \<open>A value as the decoder stores it, and a store that holds such values only.\<close>

definition decoded :: "dyn \<Rightarrow> bool" where
  "decoded v = (tag_of v \<noteq> None \<and> (case v of PList l \<Rightarrow> list_wf l | _ \<Rightarrow> True))"

definition decoded_store :: "state \<Rightarrow> bool" where
  "decoded_store st = (\<forall>a k v. (k, v) \<in> set (c_data (heap st a)) \<longrightarrow> decoded v)"


section \<open>Facts about the primitive reader\<close>

lemma word_rcat_single: "word_rcat [b] = (b :: 8 word)"
  by (simp add: word_rcat_def)

lemma read_byte_Cons: "read old (b # s) = (b :: byte, s)"
  by (simp add: read_def read_full_def word_rcat_single)

lemma read_byte_Nil: "read old [] = (old :: byte, [])"
  by (simp add: read_def read_full_def)

section \<open>The root must be a compound\<close>

text \<open>
  Claim C8. Whenever the first byte of the stream is not \<^verbatim>\<open>TagCompound\<close>, and also when
  the stream has no first byte (the tag variable keeps its zero value), \<^verbatim>\<open>Decode\<close>
  returns the nil pointer with \<^verbatim>\<open>ErrNotCompound\<close>, whatever the bound on the loops; nothing
  but the tag byte has been read and no compound has been allocated.
\<close>

theorem Decode_root_not_compound:
  "(tag \<noteq> TagCompound \<longrightarrow>
      Decode n (tag # rest) = Some (Returned ((None, Some ErrNotCompound), init_state rest))) \<and>
   Decode n [] = Some (Returned ((None, Some ErrNotCompound), init_state []))"
  by (simp add: Decode_def read_byte_Cons read_byte_Nil TagCompound_def)

theorem Decode_root_not_compound_witness:
  "Decode 3 [1, 0, 1, 97, 5] = Some (Returned ((None, Some ErrNotCompound), init_state [0, 1, 97, 5]))"
  using Decode_root_not_compound [of 1 3 "[0, 1, 97, 5]"] by (simp add: TagCompound_def)

lemma read16: "read old (a # b # s) = (word_rcat [a, b] :: 16 word, s)"
  by (simp add: read_def read_full_def)

lemma read32: "read old (a # b # c # d # s) = (word_rcat [a, b, c, d] :: 32 word, s)"
  by (simp add: read_def read_full_def)

lemma read_string_Nil: "read_string [] = Returned ([], [])"
  by (simp add: read_string_def read_def read_full_def make_len_def read_slice_def)

lemma read_string_negative:
  "sint (word_rcat [hi, lo] :: 16 word) < 0 \<Longrightarrow>
   read_string (hi # lo # rest) = Panicked MakeSliceLenOutOfRange"
  by (simp add: read_string_def read16 make_len_def)

section \<open>The switch, tag by tag\<close>

lemmas tag_defs =
  TagEnd_def TagByte_def TagShort_def TagInt_def TagLong_def TagFloat_def TagDouble_def
  TagByteArray_def TagString_def TagList_def TagCompound_def TagIntArray_def

lemma switch_tag_0:
  "switch_tag rl root current 0 st =
     (case c_parent (heap st current) of
        None \<Rightarrow> Some (Returned (Return root None st))
      | Some p \<Rightarrow> Some (Returned (Continue p st)))"
  by (simp add: switch_tag_def tag_defs)

lemma switch_tag_1: "switch_tag rl root current 1 st = continue current (store current PInt8 st)"
  by (simp add: switch_tag_def tag_defs)

lemma switch_tag_2: "switch_tag rl root current 2 st = continue current (store current PInt16 st)"
  by (simp add: switch_tag_def tag_defs)

lemma switch_tag_3: "switch_tag rl root current 3 st = continue current (store current PInt32 st)"
  by (simp add: switch_tag_def tag_defs)

lemma switch_tag_4: "switch_tag rl root current 4 st = continue current (store current PInt64 st)"
  by (simp add: switch_tag_def tag_defs)

lemma switch_tag_5: "switch_tag rl root current 5 st = continue current (store current PFloat32 st)"
  by (simp add: switch_tag_def tag_defs)

lemma switch_tag_6: "switch_tag rl root current 6 st = continue current (store current PFloat64 st)"
  by (simp add: switch_tag_def tag_defs)

lemma switch_tag_7:
  "switch_tag rl root current 7 st = continue current (store_array current Int8Slice st)"
  by (simp add: switch_tag_def tag_defs)

lemma switch_tag_8: "switch_tag rl root current 8 st = continue current (store_string current st)"
  by (simp add: switch_tag_def tag_defs)

lemma switch_tag_9:
  "switch_tag rl root current 9 st =
     (case rl st of
        None \<Rightarrow> None
      | Some (Panicked p) \<Rightarrow> Some (Panicked p)
      | Some (Returned (Inl err, st1)) \<Rightarrow> Some (Returned (Return root (Some err) st1))
      | Some (Returned (Inr list, st1)) \<Rightarrow>
          Some (Returned (Continue current (set_data current (l_name list) (PList list) st1))))"
  by (simp add: switch_tag_def tag_defs)

lemma switch_tag_10:
  "switch_tag rl root current 10 st =
     (case open_compound current st of
        Panicked p \<Rightarrow> Some (Panicked p)
      | Returned (c, st1) \<Rightarrow> Some (Returned (Continue c st1)))"
  by (simp add: switch_tag_def tag_defs)

lemma switch_tag_11:
  "switch_tag rl root current 11 st = continue current (store_array current Int32Slice st)"
  by (simp add: switch_tag_def tag_defs)

lemma switch_tag_default:
  "tag \<notin> {0, 1, 2, 3, 4, 5, 6, 7, 8, 9, 10, 11} \<Longrightarrow>
   switch_tag rl root current tag st = Some (Returned (Return root (Some (UnknownType tag)) st))"
  by (simp add: switch_tag_def tag_defs)

lemmas switch_tag_simps =
  switch_tag_0 switch_tag_1 switch_tag_2 switch_tag_3 switch_tag_4 switch_tag_5 switch_tag_6
  switch_tag_7 switch_tag_8 switch_tag_9 switch_tag_10 switch_tag_11

lemma iteration_Cons:
  "iteration rl root current tag0 st = (tag, r) \<longleftrightarrow>
     (case src st of
        [] \<Rightarrow> tag = tag0 \<and> r = switch_tag rl root current tag0 (st\<lparr>src := []\<rparr>)
      | b # s \<Rightarrow> tag = b \<and> r = switch_tag rl root current b (st\<lparr>src := s\<rparr>))"
  by (auto simp: iteration_def read_byte_Cons read_byte_Nil split: list.splits)

section \<open>The length prefix of a name is read as a signed 16-bit integer\<close>

text \<open>
  Claim C5 (the code departs from it). The package documentation says the prefix of a
  string is an unsigned short, but \<^verbatim>\<open>read_string\<close> reads it into an \<^verbatim>\<open>int16\<close> and passes
  it to \<^verbatim>\<open>make\<close>: a root name whose prefix is \<open>0x8000\<close> (32768 as unsigned) makes
  \<^verbatim>\<open>Decode\<close> panic, whatever bytes follow and whatever the bound on the loops.
\<close>

theorem Decode_name_length_signed:
  "Decode n (TagCompound # 128 # 0 # rest) = Some (Panicked MakeSliceLenOutOfRange)"
  by (simp add: Decode_def read_byte_Cons read_string_negative word_rcat_def)

section \<open>End of input inside a compound\<close>

text \<open>
  Once the stream is exhausted every read fails and leaves its variable unchanged. With
  \<^verbatim>\<open>TagInt\<close> left in the tag variable the loop stores a zero under the empty name and
  goes round again, for ever.
\<close>

lemma loop_TagInt_eof:
  "src st = [] \<Longrightarrow> read_compound_loop n root current TagInt st = None"
proof (induction n arbitrary: st)
  case 0
  show ?case by simp
next
  case (Suc n)
  have "src (set_data current [] (PInt32 0) (st\<lparr>src := []\<rparr>)) = []"
    by (simp add: set_data_def)
  from Suc.IH [OF this] show ?case using Suc.prems
    by (simp add: iteration_def read_byte_Nil switch_tag_3 [folded TagInt_def] store_def
        continue_def read_string_Nil read_def read_full_def)
qed

text \<open>
  Claim C2 (the code departs from it). \<^verbatim>\<open>read_compound\<close> ends with
  \<^verbatim>\<open>return root, ErrTruncated\<close> under the comment "not enough TAG_Ends, reached EOF
  already", but the statement cannot be reached. On the stream \<open>0A 00 00\<close> (a root with
  the empty name and nothing after it) the failed read leaves the tag variable at its
  zero value, which is \<^verbatim>\<open>TagEnd\<close>: the empty root is returned with a nil error. On the
  stream \<open>0A 00 00 03 00 01 61 00 00\<close> (an int member with 2 of its 4 bytes) the decoder
  never returns. On \<open>0A 00 00 0A 00 01 61 00\<close> (the child is closed, the root is not)
  the root is returned with a nil error.
\<close>

theorem Decode_eof_is_not_an_error:
  "view (Decode (Suc n) [10, 0, 0]) =
     Some (Returned ((Some 0, None), [\<lparr>c_name = [], c_data = [], c_parent = None\<rparr>], [])) \<and>
   Decode n [10, 0, 0, 3, 0, 1, 97, 0, 0] = None \<and>
   view (Decode 3 [10, 0, 0, 10, 0, 1, 97, 0]) =
     Some (Returned ((Some 0, None),
       [\<lparr>c_name = [], c_data = [([97], PCompound 1)], c_parent = None\<rparr>,
        \<lparr>c_name = [97], c_data = [], c_parent = Some 0\<rparr>], []))"
proof (intro conjI)
  show "view (Decode (Suc n) [10, 0, 0]) =
     Some (Returned ((Some 0, None), [\<lparr>c_name = [], c_data = [], c_parent = None\<rparr>], []))"
    by (simp add: Decode_def read_byte_Cons read_byte_Nil TagCompound_def read_string_def read16
        word_rcat_def make_len_def read_slice_def read_full_def init_state_def new_compound_def
        iteration_def switch_tag_0 view_def compounds_def)
  have "read_compound_loop n 0 0 0 (snd (new_compound [] None (init_state [3, 0, 1, 97, 0, 0]))) = None"
  proof (cases n)
    case 0
    then show ?thesis by simp
  next
    case (Suc m)
    have "read_string [0, 1, 97, 0, 0] = Returned ([97], [0, 0])"
      by code_simp
    moreover have "read (0 :: 32 word) [0, 0] = (0, [])"
      by (simp add: read_def read_full_def)
    ultimately show ?thesis using Suc
      by (simp add: iteration_def read_byte_Cons switch_tag_3 store_def continue_def
          new_compound_def init_state_def loop_TagInt_eof [unfolded TagInt_def] set_data_def)
  qed
  then show "Decode n [10, 0, 0, 3, 0, 1, 97, 0, 0] = None"
    by (simp add: Decode_def read_byte_Cons TagCompound_def read_string_def read16
        word_rcat_def make_len_def read_slice_def read_full_def new_compound_def init_state_def)
  show "view (Decode 3 [10, 0, 0, 10, 0, 1, 97, 0]) =
     Some (Returned ((Some 0, None),
       [\<lparr>c_name = [], c_data = [([97], PCompound 1)], c_parent = None\<rparr>,
        \<lparr>c_name = [97], c_data = [], c_parent = Some 0\<rparr>], []))"
    by code_simp
qed

section \<open>Negative counts\<close>

lemma store_array_negative:
  assumes "read_string (src st) = Returned (name, s1)" and "read (0 :: 32 word) s1 = (len, s2)"
    and "sint len < 0"
  shows "store_array c mk st = Panicked MakeSliceLenOutOfRange"
  using assms by (simp add: store_array_def make_len_def)

lemma list_switch_negative:
  assumes "sint (l_length list) < 0"
  shows "list_switch rc list st =
    Some (Panicked (if l_list_type list \<in> {TagCompound, TagByte, TagShort, TagInt, TagLong, TagFloat, TagDouble}
                    then MakeSliceLenOutOfRange else ListTypePanic (l_list_type list)))"
  using assms by (simp add: list_switch_def list_of_slice_def make_len_def)

lemma read_list_negative:
  assumes "read_string (src st) = Returned (name, kind # s1)" and "read (0 :: 32 word) s1 = (len, s2)"
    and "sint len < 0"
  shows "read_list n st =
    Some (Panicked (if kind \<in> {TagCompound, TagByte, TagShort, TagInt, TagLong, TagFloat, TagDouble}
                    then MakeSliceLenOutOfRange else ListTypePanic kind))"
  using assms by (simp add: read_list_body_def read_byte_Cons list_switch_negative)

text \<open>
  Claim C7, as amended. Wherever the loop of \<^verbatim>\<open>read_compound\<close> stands, a byte-array or
  int-array member whose name is read and whose 32-bit count is negative makes
  \<^verbatim>\<open>make\<close> panic; a list member with a negative length panics too, in \<^verbatim>\<open>make\<close>
  when \<^verbatim>\<open>read_list\<close> implements the element kind and in its default branch otherwise.
  The count is neither clamped to zero nor reported as an error.
\<close>

theorem negative_count_panics:
  "(read_string s = Returned (name, s1) \<and> read (0 :: 32 word) s1 = (len, s2) \<and> sint len < 0 \<longrightarrow>
      read_compound_loop (Suc n) root current tag0 (st\<lparr>src := TagByteArray # s\<rparr>) =
        Some (Panicked MakeSliceLenOutOfRange) \<and>
      read_compound_loop (Suc n) root current tag0 (st\<lparr>src := TagIntArray # s\<rparr>) =
        Some (Panicked MakeSliceLenOutOfRange)) \<and>
   (read_string s = Returned (name, kind # s1) \<and> read (0 :: 32 word) s1 = (len, s2) \<and> sint len < 0 \<longrightarrow>
      read_compound_loop (Suc n) root current tag0 (st\<lparr>src := TagList # s\<rparr>) =
        Some (Panicked
          (if kind \<in> {TagCompound, TagByte, TagShort, TagInt, TagLong, TagFloat, TagDouble}
           then MakeSliceLenOutOfRange else ListTypePanic kind)))"
proof (intro conjI impI; elim conjE)
  assume h: "read_string s = Returned (name, s1)" "read (0 :: 32 word) s1 = (len, s2)" "sint len < 0"
  have a: "store_array current mk (st\<lparr>src := s\<rparr>) = Panicked MakeSliceLenOutOfRange"
    for mk :: "'a::len word list \<Rightarrow> dyn"
    using h by (intro store_array_negative [where ?s1.0 = s1]) simp_all
  show "read_compound_loop (Suc n) root current tag0 (st\<lparr>src := TagByteArray # s\<rparr>) =
           Some (Panicked MakeSliceLenOutOfRange)"
    by (simp add: iteration_def read_byte_Cons TagByteArray_def switch_tag_7 a continue_def)
  show "read_compound_loop (Suc n) root current tag0 (st\<lparr>src := TagIntArray # s\<rparr>) =
           Some (Panicked MakeSliceLenOutOfRange)"
    by (simp add: iteration_def read_byte_Cons TagIntArray_def switch_tag_11 a continue_def)
next
  assume h: "read_string s = Returned (name, kind # s1)" "read (0 :: 32 word) s1 = (len, s2)"
    "sint len < 0"
  have "read_list n (st\<lparr>src := s\<rparr>) =
    Some (Panicked (if kind \<in> {TagCompound, TagByte, TagShort, TagInt, TagLong, TagFloat, TagDouble}
                    then MakeSliceLenOutOfRange else ListTypePanic kind))"
    using h by (intro read_list_negative [where ?s1.0 = s1]) simp_all
  then show "read_compound_loop (Suc n) root current tag0 (st\<lparr>src := TagList # s\<rparr>) =
           Some (Panicked (if kind \<in> {TagCompound, TagByte, TagShort, TagInt, TagLong, TagFloat, TagDouble}
                           then MakeSliceLenOutOfRange else ListTypePanic kind))"
    by (simp add: iteration_def read_byte_Cons TagList_def switch_tag_9 del: read_list.simps)
qed

theorem negative_count_panics_witness:
  "read_compound_loop 1 0 0 0 (init_state [7, 0, 1, 97, 255, 255, 255, 254, 0]) =
     Some (Panicked MakeSliceLenOutOfRange) \<and>
   read_compound_loop 1 0 0 0 (init_state [11, 0, 1, 97, 255, 255, 255, 254, 0]) =
     Some (Panicked MakeSliceLenOutOfRange) \<and>
   read_compound_loop 1 0 0 0 (init_state [9, 0, 1, 97, 8, 255, 255, 255, 254, 0]) =
     Some (Panicked (ListTypePanic 8))"
proof -
  have 1: "read_string [0, 1, 97, 255, 255, 255, 254, 0] = Returned ([97], [255, 255, 255, 254, 0])"
    by code_simp
  have 2: "read (0 :: 32 word) [255, 255, 255, 254, 0] = (- 2, [0])"
    by code_simp
  have 3: "sint (- 2 :: 32 word) < 0"
    by simp
  have 4: "read_string [0, 1, 97, 8, 255, 255, 255, 254, 0] = Returned ([97], 8 # [255, 255, 255, 254, 0])"
    by code_simp
  show ?thesis
    using negative_count_panics [of "[0, 1, 97, 255, 255, 255, 254, 0]" "[97]"
        "[255, 255, 255, 254, 0]" "- 2" "[0]" 0 0 0 0 "init_state []" 11]
      negative_count_panics [of "[0, 1, 97, 8, 255, 255, 255, 254, 0]" "[97]"
        "[255, 255, 255, 254, 0]" "- 2" "[0]" 0 0 0 0 "init_state []" 8] 1 2 3 4
    by (simp add: init_state_def tag_defs)
qed

text \<open>
  Claim C7 as stated fails: a byte array with count \<open>-1\<close> makes \<^verbatim>\<open>Decode\<close> panic; no
  error value is returned.
\<close>

theorem negative_count_counterexample:
  "view (Decode 5 [10, 0, 0, 7, 0, 1, 97, 255, 255, 255, 255, 0]) = Some (Panicked MakeSliceLenOutOfRange)"
  by code_simp

section \<open>A larger bound never changes a result\<close>

lemma switch_tag_not_list:
  "tag \<noteq> TagList \<Longrightarrow> switch_tag rl root current tag st = switch_tag rl' root current tag st"
  by (simp add: switch_tag_def)

lemma switch_tag_mono:
  assumes "\<And>s r. rl s = Some r \<Longrightarrow> rl' s = Some r"
    and "switch_tag rl root current tag st = Some r"
  shows "switch_tag rl' root current tag st = Some r"
proof (cases "tag = TagList")
  case False
  with assms(2) show ?thesis
    using switch_tag_not_list [of tag rl root current st rl'] by simp
next
  case True
  show ?thesis
  proof (cases "rl st")
    case None
    with assms(2) True show ?thesis
      by (simp add: TagList_def switch_tag_9)
  next
    case (Some x)
    with assms(1) have "rl' st = rl st" by simp
    with assms(2) True show ?thesis
      by (simp add: TagList_def switch_tag_9)
  qed
qed

lemma list_switch_not_compound:
  "l_list_type list \<noteq> TagCompound \<Longrightarrow> list_switch rc list st = list_switch rc' list st"
  by (simp add: list_switch_def)

lemma list_switch_mono:
  assumes "\<And>k s r. rc k s = Some r \<Longrightarrow> rc' k s = Some r"
    and "list_switch rc list st = Some r"
  shows "list_switch rc' list st = Some r"
proof (cases "l_list_type list = TagCompound")
  case False
  with assms(2) show ?thesis
    using list_switch_not_compound [of list rc st rc'] by simp
next
  case True
  show ?thesis
  proof (cases "make_len (l_length list)")
    case (Panicked p)
    with assms(2) True show ?thesis by (simp add: list_switch_def)
  next
    case (Returned k)
    show ?thesis
    proof (cases "rc k st")
      case None
      with assms(2) True Returned show ?thesis by (simp add: list_switch_def)
    next
      case (Some x)
      with assms(1) have "rc' k st = rc k st" by simp
      with assms(2) True Returned show ?thesis by (simp add: list_switch_def)
    qed
  qed
qed

lemma read_list_body_mono:
  assumes "\<And>k s r. rc k s = Some r \<Longrightarrow> rc' k s = Some r"
    and "read_list_body rc st = Some r"
  shows "read_list_body rc' st = Some r"
  using assms(2) list_switch_mono [OF assms(1)]
  by (auto simp: read_list_body_def Let_def split: outcome.splits prod.splits)

lemma iteration_mono:
  assumes "\<And>s r. rl s = Some r \<Longrightarrow> rl' s = Some r"
    and "iteration rl root current tag0 st = (tag, Some r)"
  shows "iteration rl' root current tag0 st = (tag, Some r)"
  using assms(2) switch_tag_mono [OF assms(1)]
  by (auto simp: iteration_def split: prod.splits)

lemma fuel_mono_Suc:
  "read_compound_loop n root current tag st = Some r1 \<Longrightarrow>
     read_compound_loop (Suc n) root current tag st = Some r1"
  "read_compound n name parent st = Some r2 \<Longrightarrow> read_compound (Suc n) name parent st = Some r2"
  "read_list_compounds n k acc st = Some r3 \<Longrightarrow> read_list_compounds (Suc n) k acc st = Some r3"
  "read_list n st = Some r4 \<Longrightarrow> read_list (Suc n) st = Some r4"
proof (induction n root current tag st and n name parent st and n k acc st and n st
    arbitrary: r1 and r2 and r3 and r4
    rule: read_compound_loop_read_compound_read_list_compounds_read_list.induct)
  case (1 root current tag st)
  then show ?case by simp
next
  case (2 n root current tag0 st)
  obtain tag y where it: "iteration (read_list n) root current tag0 st = (tag, y)"
    by (cases "iteration (read_list n) root current tag0 st")
  with "2.prems" obtain oc where y: "y = Some oc"
    by (cases y) (auto simp del: read_list.simps)
  have it': "iteration (read_list (Suc n)) root current tag0 st = (tag, Some oc)"
    by (rule iteration_mono [OF _ it [unfolded y]]) (rule "2.IH"(1))
  show ?case
  proof (cases oc)
    case (Panicked p)
    with "2.prems" it y it' show ?thesis by (simp del: read_list.simps)
  next
    case (Returned c)
    show ?thesis
    proof (cases c)
      case (Continue c1 st1)
      with Returned "2.prems" it y have "read_compound_loop n root c1 tag st1 = Some r1"
        by (simp del: read_list.simps)
      then have "read_compound_loop (Suc n) root c1 tag st1 = Some r1"
        using "2.IH"(2) [of tag y oc c c1 st1] it y Returned Continue by simp
      then show ?thesis using it' Returned Continue
        by (simp del: read_list.simps)
    next
      case (Return r e st1)
      with Returned "2.prems" it y it' show ?thesis by (simp del: read_list.simps)
    qed
  qed
next
  case (3 n name parent st)
  then show ?case
    by (simp split: prod.splits del: read_compound_loop.simps)
next
  case (4 n acc st)
  then show ?case by simp
next
  case (5 n k acc st)
  from "5.prems" obtain oc where rc: "read_compound n [] None st = Some oc"
    by (cases "read_compound n [] None st") (auto simp del: read_compound.simps)
  then have rc': "read_compound (Suc n) [] None st = Some oc"
    by (rule "5.IH"(1))
  show ?case
  proof (cases oc)
    case (Panicked p)
    with "5.prems" rc rc' show ?thesis by (simp del: read_compound.simps)
  next
    case (Returned x)
    obtain c e st1 where x: "x = ((c, e), st1)" by (cases x) auto
    show ?thesis
    proof (cases e)
      case None
      with "5.prems" rc Returned x have "read_list_compounds n k (acc @ [c]) st1 = Some r3"
        by (simp del: read_compound.simps)
      then have "read_list_compounds (Suc n) k (acc @ [c]) st1 = Some r3"
        using "5.IH"(2) [of oc x "(c, e)" st1 c e] rc Returned x None by simp
      then show ?thesis using rc' Returned x None by (simp del: read_compound.simps)
    next
      case (Some err)
      with "5.prems" rc rc' Returned x show ?thesis by (simp del: read_compound.simps)
    qed
  qed
next
  case (6 n st0)
  have "read_list_body (\<lambda>k s. read_list_compounds (Suc n) k [] s) st0 = Some r4"
    by (rule read_list_body_mono [OF _ "6.prems" [simplified]]) (rule "6.IH")
  then show ?case by simp
qed

lemma fuel_mono_loop:
  "n \<le> m \<Longrightarrow> read_compound_loop n root current tag st = Some r \<Longrightarrow>
   read_compound_loop m root current tag st = Some r"
  by (induction m rule: dec_induct) (assumption, rule fuel_mono_Suc(1))

lemma fuel_mono_compound:
  "n \<le> m \<Longrightarrow> read_compound n name parent st = Some r \<Longrightarrow>
   read_compound m name parent st = Some r"
  by (induction m rule: dec_induct) (assumption, rule fuel_mono_Suc(2))

lemma fuel_mono_elements:
  "n \<le> m \<Longrightarrow> read_list_compounds n k acc st = Some r \<Longrightarrow>
   read_list_compounds m k acc st = Some r"
  by (induction m rule: dec_induct) (assumption, rule fuel_mono_Suc(3))

lemma fuel_mono_list:
  "n \<le> m \<Longrightarrow> read_list n st = Some r \<Longrightarrow> read_list m st = Some r"
  by (induction m rule: dec_induct) (assumption, rule fuel_mono_Suc(4))

lemma Decode_mono:
  assumes "n \<le> m" and "Decode n s = Some r"
  shows "Decode m s = Some r"
proof (cases "fst (read 0 s :: byte \<times> byte list) = TagCompound")
  case False
  with assms(2) show ?thesis
    by (simp add: Decode_def split: prod.splits)
next
  case True
  obtain tag s1 where r: "read 0 s = (tag :: byte, s1)" by (cases "read 0 s :: byte \<times> byte list")
  with True have tag: "tag = TagCompound" by simp
  show ?thesis
  proof (cases "read_string s1")
    case (Panicked p)
    with assms(2) r tag show ?thesis by (simp add: Decode_def)
  next
    case (Returned x)
    obtain name s2 where x: "x = (name, s2)" by (cases x)
    from assms(2) r tag Returned x obtain rc where
      rc: "read_compound n name None (init_state s2) = Some rc"
      by (cases "read_compound n name None (init_state s2)")
         (simp_all add: Decode_def del: read_compound.simps)
    from fuel_mono_compound [OF assms(1) rc] rc assms(2) r tag Returned x
    show ?thesis by (simp add: Decode_def del: read_compound.simps)
  qed
qed

end
